theory Spec2Isabelle
  imports Main
begin

section \<open>JavaScript values the handler works on\<close>

text \<open>
  The bodies that \<^verbatim>\<open>res.json()\<close> and \<^verbatim>\<open>req.body\<close> deliver are JSON values. A number is held
  as the text that JavaScript's number-to-string conversion gives for it (\<open>''0''\<close>,
  \<open>''1.5''\<close>, \<open>''1e+21''\<close>), which is all the handler ever looks at. An object is the list
  of its own properties in enumeration order. A value that may be \<^verbatim>\<open>undefined\<close> is a
  \<open>json option\<close>, with \<open>None\<close> for \<^verbatim>\<open>undefined\<close>.
\<close>

datatype json =
    JNull
  | JBool bool
  | JNum string
  | JStr string
  | JArr "json list"
  | JObj "(string \<times> json) list"

text \<open>What \<^verbatim>\<open>!x\<close> and \<^verbatim>\<open>x || y\<close> test.\<close>

fun truthy :: "json \<Rightarrow> bool" where
  "truthy JNull = False"
| "truthy (JBool b) = b"
| "truthy (JNum s) = (s \<noteq> ''0'' \<and> s \<noteq> ''NaN'')"
| "truthy (JStr s) = (s \<noteq> [])"
| "truthy (JArr xs) = True"
| "truthy (JObj kvs) = True"

fun truthy_opt :: "json option \<Rightarrow> bool" where
  "truthy_opt None = False"
| "truthy_opt (Some v) = truthy v"

text \<open>\<^verbatim>\<open>a || b\<close>: the left operand when it is truthy, the right one otherwise.\<close>

definition js_or :: "json option \<Rightarrow> json option \<Rightarrow> json option" where
  "js_or a b = (if truthy_opt a then a else b)"

text \<open>
  \<^verbatim>\<open>x?.key\<close> for the keys \<^verbatim>\<open>error\<close>, \<^verbatim>\<open>message\<close> and \<^verbatim>\<open>prompt\<close>: \<^verbatim>\<open>undefined\<close> on
  \<^verbatim>\<open>undefined\<close> and \<^verbatim>\<open>null\<close>, the own property on an object, and \<^verbatim>\<open>undefined\<close> on
  booleans, numbers, strings and arrays, whose prototypes have no property of these names.
\<close>

fun get_prop :: "json option \<Rightarrow> string \<Rightarrow> json option" where
  "get_prop (Some (JObj kvs)) k = map_of kvs k"
| "get_prop _ k = None"

subsection \<open>Errors\<close>

text \<open>
  A thrown value: an \<^verbatim>\<open>Error\<close> object with its \<^verbatim>\<open>name\<close> and \<^verbatim>\<open>message\<close>, and the
  \<^verbatim>\<open>status\<close> and \<^verbatim>\<open>data\<close> properties that \<^verbatim>\<open>fetchWithRetry\<close> may add.
\<close>

record js_error =
  err_name :: string
  err_message :: string
  err_status :: "nat option"
  err_data :: "json option"

definition Error :: "string \<Rightarrow> js_error" where
  "Error m = \<lparr>err_name = ''Error'', err_message = m, err_status = None, err_data = None\<rparr>"

text \<open>The \<^verbatim>\<open>TypeError\<close> of a conversion to string that finds no primitive value.\<close>

definition TypeError_primitive :: js_error where
  "TypeError_primitive =
     \<lparr>err_name = ''TypeError'', err_message = ''Cannot convert object to primitive value'',
      err_status = None, err_data = None\<rparr>"

text \<open>\<^verbatim>\<open>String(e)\<close> on an error object (\<^verbatim>\<open>Error.prototype.toString\<close>).\<close>

definition error_to_string :: "js_error \<Rightarrow> string" where
  "error_to_string e =
     (if err_name e = [] then err_message e
      else if err_message e = [] then err_name e
      else err_name e @ '': '' @ err_message e)"

subsection \<open>Conversion to string\<close>

text \<open>The decimal digits of a status code, as a template literal prints a number.\<close>

fun decimal :: "nat \<Rightarrow> string" where
  "decimal n =
     (if n < 10 then [char_of (48 + n)]
      else decimal (n div 10) @ [char_of (48 + n mod 10)])"

declare decimal.simps [simp del]

text \<open>
  What a template literal does to an interpolated value (the \<^verbatim>\<open>ToString\<close> operation of
  the language). A string is itself; an array is its elements joined by commas, \<^verbatim>\<open>null\<close>
  elements printing as nothing; a plain object is \<^verbatim>\<open>[object Object]\<close>. For an object the
  conversion calls its \<^verbatim>\<open>toString\<close> when that is callable, then its \<^verbatim>\<open>valueOf\<close>, and
  throws a \<^verbatim>\<open>TypeError\<close> when neither gives a primitive value. An object parsed from JSON
  that has an own property \<^verbatim>\<open>toString\<close> hides \<^verbatim>\<open>Object.prototype.toString\<close> behind a value
  that is never a function, and \<^verbatim>\<open>valueOf\<close> gives the object back (or is hidden the same
  way): the conversion throws, which is the \<open>Inl\<close> result here.
\<close>

fun to_string :: "json \<Rightarrow> js_error + string"
  and join :: "json list \<Rightarrow> js_error + string" where
  "to_string JNull = Inr ''null''"
| "to_string (JBool b) = Inr (if b then ''true'' else ''false'')"
| "to_string (JNum s) = Inr s"
| "to_string (JStr s) = Inr s"
| "to_string (JArr xs) = join xs"
| "to_string (JObj kvs) =
     (if ''toString'' \<in> fst ` set kvs then Inl TypeError_primitive
      else Inr ''[object Object]'')"
| "join [] = Inr []"
| "join (x # xs) =
     (case (if x = JNull then Inr [] else to_string x) of
        Inl e \<Rightarrow> Inl e
      | Inr s \<Rightarrow>
          (if xs = [] then Inr s
           else case join xs of Inl e \<Rightarrow> Inl e | Inr t \<Rightarrow> Inr (s @ '','' @ t)))"

subsection \<open>\<^verbatim>\<open>JSON.stringify\<close>\<close>

definition hex_digit :: "nat \<Rightarrow> char" where
  "hex_digit d = (if d < 10 then char_of (48 + d) else char_of (87 + d))"

text \<open>The escapes of a string in JSON text.\<close>

definition escape_char :: "char \<Rightarrow> string" where
  "escape_char c =
     (let n = (of_char c :: nat) in
      if n = 34 then [CHR 0x5C, CHR 0x22]
      else if n = 92 then [CHR 0x5C, CHR 0x5C]
      else if n = 8 then [CHR 0x5C, CHR ''b'']
      else if n = 12 then [CHR 0x5C, CHR ''f'']
      else if n = 10 then [CHR 0x5C, CHR ''n'']
      else if n = 13 then [CHR 0x5C, CHR ''r'']
      else if n = 9 then [CHR 0x5C, CHR ''t'']
      else if n < 32 then [CHR 0x5C, CHR ''u'', CHR ''0'', CHR ''0'', hex_digit (n div 16), hex_digit (n mod 16)]
      else [c])"

definition quote :: "string \<Rightarrow> string" where
  "quote s = [CHR 0x22] @ concat (map escape_char s) @ [CHR 0x22]"

fun commas :: "string list \<Rightarrow> string" where
  "commas [] = []"
| "commas [s] = s"
| "commas (s # t # ts) = s @ '','' @ commas (t # ts)"

text \<open>
  \<^verbatim>\<open>JSON.stringify\<close> with no indentation, on a value that holds no \<^verbatim>\<open>undefined\<close> and no
  function: the compact JSON text. A number that is not finite prints as \<^verbatim>\<open>null\<close>.
\<close>

fun stringify :: "json \<Rightarrow> string" where
  "stringify JNull = ''null''"
| "stringify (JBool b) = (if b then ''true'' else ''false'')"
| "stringify (JNum s) =
     (if s = ''Infinity'' \<or> s = ''-Infinity'' \<or> s = ''NaN'' then ''null'' else s)"
| "stringify (JStr s) = quote s"
| "stringify (JArr xs) = ''['' @ commas (map stringify xs) @ '']''"
| "stringify (JObj kvs) =
     ''{'' @ commas (map (\<lambda>(k, v). quote k @ '':'' @ stringify v) kvs) @ ''}''"

text \<open>\<^verbatim>\<open>typeof x\<close> on a value that is not \<^verbatim>\<open>undefined\<close>.\<close>

fun typeof :: "json \<Rightarrow> string" where
  "typeof JNull = ''object''"
| "typeof (JBool b) = ''boolean''"
| "typeof (JNum s) = ''number''"
| "typeof (JStr s) = ''string''"
| "typeof (JArr xs) = ''object''"
| "typeof (JObj kvs) = ''object''"

section \<open>The upstream endpoint and the effects of a request\<close>

text \<open>
  One \<^verbatim>\<open>fetch\<close> either rejects with an error or resolves to a response, of which the
  handler reads the status and the outcome of \<^verbatim>\<open>res.json()\<close> (\<open>Inl\<close> when the body does
  not parse). \<^verbatim>\<open>res.ok\<close> is the status being in 200..299.
\<close>

datatype fetch_result =
    Rejects js_error
  | Resolves nat "js_error + json"

definition res_ok :: "nat \<Rightarrow> bool" where
  "res_ok status = (200 \<le> status \<and> status \<le> 299)"

text \<open>
  The endpoint is any function from the number of \<^verbatim>\<open>fetch\<close> calls made so far during
  the request to the outcome of the next one.
\<close>

type_synonym upstream = "nat \<Rightarrow> fetch_result"

record options =
  opt_method :: string
  opt_headers :: "(string \<times> string) list"
  opt_body :: string

text \<open>What a request does to the outside, in order: the calls of \<^verbatim>\<open>fetch\<close> and of \<^verbatim>\<open>sleep\<close>.\<close>

datatype event =
    Fetch string options
  | Sleep nat

fun is_fetch :: "event \<Rightarrow> bool" where
  "is_fetch (Fetch url opts) = True"
| "is_fetch (Sleep ms) = False"

definition fetches :: "event list \<Rightarrow> nat" where
  "fetches tr = length (filter is_fetch tr)"

definition fetch :: "upstream \<Rightarrow> string \<Rightarrow> options \<Rightarrow> event list \<Rightarrow> fetch_result \<times> event list" where
  "fetch up url opts tr = (up (fetches tr), tr @ [Fetch url opts])"

definition sleep :: "nat \<Rightarrow> event list \<Rightarrow> event list" where
  "sleep ms tr = tr @ [Sleep ms]"

section \<open>\<^verbatim>\<open>api/generate.js\<close>: retry and fallback\<close>

definition MODEL_PRIMARY :: string where
  "MODEL_PRIMARY = ''gemini-3-flash-preview''"

definition MODEL_FALLBACK :: string where
  "MODEL_FALLBACK = ''gemini-2.0-flash''"

text \<open>\<^verbatim>\<open>data?.error?.message || data?.error || JSON.stringify(data)\<close>\<close>

definition msg_of :: "json \<Rightarrow> json option" where
  "msg_of data =
     js_or (js_or (get_prop (get_prop (Some data) ''error'') ''message'')
                  (get_prop (Some data) ''error''))
           (Some (JStr (stringify data)))"

text \<open>The template literal \<^verbatim>\<open>`${status}: ${msg}`\<close>; \<^verbatim>\<open>undefined\<close> prints as its name.\<close>

fun to_string_opt :: "json option \<Rightarrow> js_error + string" where
  "to_string_opt None = Inr ''undefined''"
| "to_string_opt (Some v) = to_string v"

definition status_msg :: "nat \<Rightarrow> json option \<Rightarrow> js_error + string" where
  "status_msg status msg =
     (case to_string_opt msg of
        Inl e \<Rightarrow> Inl e
      | Inr s \<Rightarrow> Inr (decimal status @ '': '' @ s))"

text \<open>\<^verbatim>\<open>res.json().catch(() => ({}))\<close>: a body that does not parse counts as \<^verbatim>\<open>{}\<close>.\<close>

definition json_catch :: "js_error + json \<Rightarrow> json" where
  "json_catch body = (case body of Inl e \<Rightarrow> JObj [] | Inr d \<Rightarrow> d)"

text \<open>
  The loop of \<^verbatim>\<open>fetchWithRetry\<close> from a given value of \<^verbatim>\<open>attempt\<close>. It returns the pair of
  the response's status and \<^verbatim>\<open>data\<close>, or the thrown error, and the effects so far.
\<close>

function fetchWithRetry_from ::
  "upstream \<Rightarrow> string \<Rightarrow> options \<Rightarrow> nat \<Rightarrow> nat \<Rightarrow> js_error option \<Rightarrow> event list
     \<Rightarrow> (js_error + nat \<times> json) \<times> event list" where
  "fetchWithRetry_from up url opts maxAttempts attempt lastErr tr =
     (if attempt \<le> maxAttempts then
        (case fetch up url opts tr of
           (Rejects e, tr1) \<Rightarrow> (Inl e, tr1)
         | (Resolves status body, tr1) \<Rightarrow>
             (let data = json_catch body in
              if res_ok status then (Inr (status, data), tr1)
              else
                (let msg = msg_of data in
                 if (status = 429 \<or> status = 503) \<and> attempt < maxAttempts then
                   (let wait = 1000 * 2 ^ (attempt - 1);
                        tr2 = sleep wait tr1
                    in case status_msg status msg of
                         Inl e \<Rightarrow> (Inl e, tr2)
                       | Inr m \<Rightarrow>
                           fetchWithRetry_from up url opts maxAttempts (attempt + 1)
                             (Some ((Error m)\<lparr>err_status := Some status\<rparr>)) tr2)
                 else
                   (case status_msg status msg of
                      Inl e \<Rightarrow> (Inl e, tr1)
                    | Inr m \<Rightarrow>
                        (Inl ((Error m)\<lparr>err_status := Some status, err_data := Some data\<rparr>),
                         tr1)))))
      else
        (Inl (case lastErr of
                Some e \<Rightarrow> e
              | None \<Rightarrow> Error ''Falha desconhecida no retry.''),
         tr))"
  by pat_completeness auto
termination
  by (relation "measure (\<lambda>(up, url, opts, maxAttempts, attempt, lastErr, tr). maxAttempts - attempt)")
     auto

declare fetchWithRetry_from.simps [simp del]

text \<open>\<^verbatim>\<open>fetchWithRetry(url, options, maxAttempts = 4)\<close>: the loop from \<^verbatim>\<open>attempt = 1\<close>.\<close>

definition fetchWithRetry ::
  "upstream \<Rightarrow> string \<Rightarrow> options \<Rightarrow> nat \<Rightarrow> event list
     \<Rightarrow> (js_error + nat \<times> json) \<times> event list" where
  "fetchWithRetry up url opts maxAttempts tr =
     fetchWithRetry_from up url opts maxAttempts 1 None tr"

definition gemini_url :: "string \<Rightarrow> string \<Rightarrow> string" where
  "gemini_url model apiKey =
     ''https://generativelanguage.googleapis.com/v1beta/models/'' @ model
       @ '':generateContent?key='' @ apiKey"

definition gemini_body :: "json \<Rightarrow> json" where
  "gemini_body prompt =
     JObj [(''contents'',
            JArr [JObj [(''role'', JStr ''user''),
                        (''parts'', JArr [JObj [(''text'', prompt)]])]])]"

definition gemini_options :: "json \<Rightarrow> options" where
  "gemini_options prompt =
     \<lparr>opt_method = ''POST'',
      opt_headers = [(''Content-Type'', ''application/json'')],
      opt_body = stringify (gemini_body prompt)\<rparr>"

text \<open>\<^verbatim>\<open>callGemini\<close>: one \<^verbatim>\<open>fetchWithRetry\<close> with the default budget of 4, keeping \<^verbatim>\<open>data\<close>.\<close>

definition callGemini ::
  "upstream \<Rightarrow> string \<Rightarrow> string \<Rightarrow> json \<Rightarrow> event list \<Rightarrow> (js_error + json) \<times> event list" where
  "callGemini up apiKey model prompt tr =
     (case fetchWithRetry up (gemini_url model apiKey) (gemini_options prompt) 4 tr of
        (Inl e, tr1) \<Rightarrow> (Inl e, tr1)
      | (Inr (status, data), tr1) \<Rightarrow> (Inr data, tr1))"

record request =
  req_method :: string
  req_body :: "json option"

record response =
  res_status :: nat
  res_body :: json

definition respond :: "nat \<Rightarrow> json \<Rightarrow> response" where
  "respond status body = \<lparr>res_status = status, res_body = body\<rparr>"

text \<open>
  The body of the handler's outer \<^verbatim>\<open>try\<close>. \<open>env\<close> is \<^verbatim>\<open>process.env.GEMINI_API_KEY\<close>,
  \<open>None\<close> when the variable is not set.
\<close>

definition handler_try ::
  "upstream \<Rightarrow> string option \<Rightarrow> request \<Rightarrow> (js_error + response) \<times> event list" where
  "handler_try up env req =
     (if req_method req \<noteq> ''POST'' then
        (Inr (respond 405 (JObj [(''error'', JStr ''Method not allowed'')])), [])
      else
        (case get_prop (js_or (req_body req) (Some (JObj []))) ''prompt'' of
           None \<Rightarrow> (Inr (respond 400 (JObj [(''error'', JStr ''Missing or invalid prompt'')])), [])
         | Some prompt \<Rightarrow>
             if \<not> truthy prompt \<or> typeof prompt \<noteq> ''string'' then
               (Inr (respond 400 (JObj [(''error'', JStr ''Missing or invalid prompt'')])), [])
             else
               (case env of
                  None \<Rightarrow>
                    (Inr (respond 500 (JObj [(''error'', JStr ''Missing GEMINI_API_KEY env var'')])), [])
                | Some apiKey \<Rightarrow>
                    if apiKey = [] then
                      (Inr (respond 500 (JObj [(''error'', JStr ''Missing GEMINI_API_KEY env var'')])), [])
                    else
                      (case callGemini up apiKey MODEL_PRIMARY prompt [] of
                         (Inr data, tr1) \<Rightarrow> (Inr (respond 200 data), tr1)
                       | (Inl e, tr1) \<Rightarrow>
                           (let status = (case err_status e of
                                            None \<Rightarrow> 0
                                          | Some s \<Rightarrow> if s = 0 then 0 else s)
                            in if status = 429 \<or> status = 503 then
                                 (case callGemini up apiKey MODEL_FALLBACK prompt tr1 of
                                    (Inr data, tr2) \<Rightarrow> (Inr (respond 200 data), tr2)
                                  | (Inl e2, tr2) \<Rightarrow> (Inl e2, tr2))
                               else (Inl e, tr1))))))"

text \<open>
  \<^verbatim>\<open>module.exports\<close>: the outer \<^verbatim>\<open>catch\<close> turns every error into a 500 whose message is
  \<^verbatim>\<open>e?.message || String(e)\<close>. The result is the response and the effects of the request.
\<close>

definition handler :: "upstream \<Rightarrow> string option \<Rightarrow> request \<Rightarrow> response \<times> event list" where
  "handler up env req =
     (case handler_try up env req of
        (Inr r, tr) \<Rightarrow> (r, tr)
      | (Inl e, tr) \<Rightarrow>
          (respond 500
             (JObj [(''error'',
                     JObj [(''message'',
                            JStr (if err_message e \<noteq> [] then err_message e
                                  else error_to_string e))])]),
           tr))"

section \<open>The variant without retry and fallback\<close>

text \<open>
  The second source file: one \<^verbatim>\<open>fetch\<close> of the model \<^verbatim>\<open>gemini-2.0-flash\<close>, \<^verbatim>\<open>r.json()\<close>
  with no \<^verbatim>\<open>catch\<close> of its own, the upstream status passed on, and \<^verbatim>\<open>String(e)\<close> as the
  error of the 500.
\<close>

definition simple_try ::
  "upstream \<Rightarrow> string option \<Rightarrow> request \<Rightarrow> (js_error + response) \<times> event list" where
  "simple_try up env req =
     (if req_method req \<noteq> ''POST'' then
        (Inr (respond 405 (JObj [(''error'', JStr ''Method not allowed'')])), [])
      else
        (case get_prop (js_or (req_body req) (Some (JObj []))) ''prompt'' of
           None \<Rightarrow> (Inr (respond 400 (JObj [(''error'', JStr ''Missing or invalid prompt'')])), [])
         | Some prompt \<Rightarrow>
             if \<not> truthy prompt \<or> typeof prompt \<noteq> ''string'' then
               (Inr (respond 400 (JObj [(''error'', JStr ''Missing or invalid prompt'')])), [])
             else
               (case env of
                  None \<Rightarrow>
                    (Inr (respond 500 (JObj [(''error'', JStr ''Missing GEMINI_API_KEY env var'')])), [])
                | Some apiKey \<Rightarrow>
                    if apiKey = [] then
                      (Inr (respond 500 (JObj [(''error'', JStr ''Missing GEMINI_API_KEY env var'')])), [])
                    else
                      (let url = ''https://generativelanguage.googleapis.com/v1beta/models/gemini-2.0-flash:generateContent?key='' @ apiKey
                       in case fetch up url
                                 \<lparr>opt_method = ''POST'',
                                  opt_headers = [(''Content-Type'', ''application/json'')],
                                  opt_body = stringify
                                    (JObj [(''contents'',
                                            JArr [JObj [(''role'', JStr ''user''),
                                                        (''parts'', JArr [JObj [(''text'', prompt)]])]])])\<rparr>
                                 [] of
                            (Rejects e, tr1) \<Rightarrow> (Inl e, tr1)
                          | (Resolves status body, tr1) \<Rightarrow>
                              (case body of
                                 Inl e \<Rightarrow> (Inl e, tr1)
                               | Inr data \<Rightarrow> (Inr (respond status data), tr1))))))"

definition handler_simple :: "upstream \<Rightarrow> string option \<Rightarrow> request \<Rightarrow> response \<times> event list" where
  "handler_simple up env req =
     (case simple_try up env req of
        (Inr r, tr) \<Rightarrow> (r, tr)
      | (Inl e, tr) \<Rightarrow> (respond 500 (JObj [(''error'', JStr (error_to_string e))]), tr))"

section \<open>The general form of the specification\<close>

text \<open>
  The specification calls the variant above the retry and fallback handler "configured
  with maxAttempts=1 and no fallback". The source has no such configuration, so the
  general form is written here after the specification: the handler of
  \<^verbatim>\<open>api/generate.js\<close> with its attempt budget, its primary target and its optional
  fallback target as parameters.
\<close>

definition callGemini_general ::
  "nat \<Rightarrow> upstream \<Rightarrow> string \<Rightarrow> string \<Rightarrow> json \<Rightarrow> event list
     \<Rightarrow> (js_error + json) \<times> event list" where
  "callGemini_general maxAttempts up apiKey model prompt tr =
     (case fetchWithRetry up (gemini_url model apiKey) (gemini_options prompt) maxAttempts tr of
        (Inl e, tr1) \<Rightarrow> (Inl e, tr1)
      | (Inr (status, data), tr1) \<Rightarrow> (Inr data, tr1))"

definition general_try ::
  "nat \<Rightarrow> string \<Rightarrow> string option \<Rightarrow> upstream \<Rightarrow> string option \<Rightarrow> request
     \<Rightarrow> (js_error + response) \<times> event list" where
  "general_try maxAttempts primary fallback up env req =
     (if req_method req \<noteq> ''POST'' then
        (Inr (respond 405 (JObj [(''error'', JStr ''Method not allowed'')])), [])
      else
        (case get_prop (js_or (req_body req) (Some (JObj []))) ''prompt'' of
           None \<Rightarrow> (Inr (respond 400 (JObj [(''error'', JStr ''Missing or invalid prompt'')])), [])
         | Some prompt \<Rightarrow>
             if \<not> truthy prompt \<or> typeof prompt \<noteq> ''string'' then
               (Inr (respond 400 (JObj [(''error'', JStr ''Missing or invalid prompt'')])), [])
             else
               (case env of
                  None \<Rightarrow>
                    (Inr (respond 500 (JObj [(''error'', JStr ''Missing GEMINI_API_KEY env var'')])), [])
                | Some apiKey \<Rightarrow>
                    if apiKey = [] then
                      (Inr (respond 500 (JObj [(''error'', JStr ''Missing GEMINI_API_KEY env var'')])), [])
                    else
                      (case callGemini_general maxAttempts up apiKey primary prompt [] of
                         (Inr data, tr1) \<Rightarrow> (Inr (respond 200 data), tr1)
                       | (Inl e, tr1) \<Rightarrow>
                           (let status = (case err_status e of
                                            None \<Rightarrow> 0
                                          | Some s \<Rightarrow> if s = 0 then 0 else s)
                            in case fallback of
                                 None \<Rightarrow> (Inl e, tr1)
                               | Some model \<Rightarrow>
                                   if status = 429 \<or> status = 503 then
                                     (case callGemini_general maxAttempts up apiKey model prompt tr1 of
                                        (Inr data, tr2) \<Rightarrow> (Inr (respond 200 data), tr2)
                                      | (Inl e2, tr2) \<Rightarrow> (Inl e2, tr2))
                                   else (Inl e, tr1))))))"

definition handler_general ::
  "nat \<Rightarrow> string \<Rightarrow> string option \<Rightarrow> upstream \<Rightarrow> string option \<Rightarrow> request
     \<Rightarrow> response \<times> event list" where
  "handler_general maxAttempts primary fallback up env req =
     (case general_try maxAttempts primary fallback up env req of
        (Inr r, tr) \<Rightarrow> (r, tr)
      | (Inl e, tr) \<Rightarrow>
          (respond 500
             (JObj [(''error'',
                     JObj [(''message'',
                            JStr (if err_message e \<noteq> [] then err_message e
                                  else error_to_string e))])]),
           tr))"

section \<open>Requests and endpoints used as examples\<close>

definition post_hi :: request where
  "post_hi = \<lparr>req_method = ''POST'', req_body = Some (JObj [(''prompt'', JStr ''hi'')])\<rparr>"

definition primary_url_k :: string where
  "primary_url_k = gemini_url MODEL_PRIMARY ''k''"

definition fallback_url_k :: string where
  "fallback_url_k = gemini_url MODEL_FALLBACK ''k''"

definition options_hi :: options where
  "options_hi = gemini_options (JStr ''hi'')"

text \<open>An error body of the provider's usual shape.\<close>

definition quota_body :: json where
  "quota_body = JObj [(''error'', JObj [(''code'', JNum ''429''), (''message'', JStr ''quota'')])]"

text \<open>A JSON body whose \<^verbatim>\<open>error\<close> object has a property named \<^verbatim>\<open>toString\<close>.\<close>

definition tostring_body :: json where
  "tostring_body = JObj [(''error'', JObj [(''toString'', JNum ''1'')])]"

definition answer_body :: json where
  "answer_body = JObj [(''candidates'', JArr [])]"

definition quota_always :: upstream where
  "quota_always = (\<lambda>i. Resolves 429 (Inr quota_body))"

definition get_hi :: request where
  "get_hi = \<lparr>req_method = ''GET'', req_body = Some (JObj [(''prompt'', JStr ''hi'')])\<rparr>"

definition bad_body :: json where
  "bad_body = JObj [(''error'', JObj [(''message'', JStr ''bad'')])]"

definition bad_request_always :: upstream where
  "bad_request_always = (\<lambda>i. Resolves 400 (Inr bad_body))"

text \<open>An error body whose \<^verbatim>\<open>message\<close> is there and is the empty string.\<close>

definition empty_message_body :: json where
  "empty_message_body = JObj [(''error'', JObj [(''message'', JStr [])])]"

definition empty_message_always :: upstream where
  "empty_message_always = (\<lambda>i. Resolves 400 (Inr empty_message_body))"

definition tostring_always :: upstream where
  "tostring_always = (\<lambda>i. Resolves 429 (Inr tostring_body))"

definition tostring_400_always :: upstream where
  "tostring_400_always = (\<lambda>i. Resolves 400 (Inr tostring_body))"

text \<open>Four times 429 from the primary target, then 200 from the fallback target.\<close>

definition tostring_then_answer :: upstream where
  "tostring_then_answer =
     (\<lambda>i. if i < 4 then Resolves 429 (Inr tostring_body) else Resolves 200 (Inr answer_body))"

definition answer_always :: upstream where
  "answer_always = (\<lambda>i. Resolves 200 (Inr answer_body))"

definition quota_then_answer :: upstream where
  "quota_then_answer =
     (\<lambda>i. if i < 4 then Resolves 429 (Inr quota_body) else Resolves 200 (Inr answer_body))"

text \<open>A 200 whose body is not JSON: \<^verbatim>\<open>res.json()\<close> rejects with a \<^verbatim>\<open>SyntaxError\<close>.\<close>

definition json_syntax_error :: js_error where
  "json_syntax_error =
     \<lparr>err_name = ''SyntaxError'', err_message = ''Unexpected end of JSON input'',
      err_status = None, err_data = None\<rparr>"

definition not_json_always :: upstream where
  "not_json_always = (\<lambda>i. Resolves 200 (Inl json_syntax_error))"

text \<open>Another error body with a \<^verbatim>\<open>toString\<close> property, and other content.\<close>

definition tostring_code_body :: json where
  "tostring_code_body = JObj [(''error'', JObj [(''code'', JNum ''400''), (''toString'', JStr ''x'')])]"

definition tostring_code_400_always :: upstream where
  "tostring_code_400_always = (\<lambda>i. Resolves 400 (Inr tostring_code_body))"

section \<open>Validation of the request and of the credential\<close>

lemma get_prop_js_or_empty: "get_prop (js_or b (Some (JObj []))) k = get_prop b k"
proof (cases b)
  case None
  then show ?thesis by (simp add: js_or_def)
next
  case (Some v)
  then show ?thesis by (cases v) (simp_all add: js_or_def)
qed

text \<open>
  C9. A POST request whose body has no \<^verbatim>\<open>prompt\<close>, a \<^verbatim>\<open>prompt\<close> that is not a string, or
  the empty string as \<^verbatim>\<open>prompt\<close>, is answered 400 with
  \<^verbatim>\<open>{error: "Missing or invalid prompt"}\<close>, and nothing is sent to the endpoint: the
  effects of the request are empty.
\<close>

theorem invalid_prompt_400:
  assumes "req_method req = ''POST''"
    and "get_prop (req_body req) ''prompt'' = None
         \<or> (\<exists>v. get_prop (req_body req) ''prompt'' = Some v \<and> typeof v \<noteq> ''string'')
         \<or> get_prop (req_body req) ''prompt'' = Some (JStr [])"
  shows "handler up env req =
           (respond 400 (JObj [(''error'', JStr ''Missing or invalid prompt'')]), [])"
  using assms
  by (auto simp add: handler_def handler_try_def get_prop_js_or_empty)

theorem invalid_prompt_400_witness:
  "handler quota_always (Some ''k'') \<lparr>req_method = ''POST'', req_body = Some (JObj [])\<rparr> =
     (respond 400 (JObj [(''error'', JStr ''Missing or invalid prompt'')]), [])
   \<and> handler quota_always (Some ''k'')
        \<lparr>req_method = ''POST'', req_body = Some (JObj [(''prompt'', JNum ''5'')])\<rparr> =
     (respond 400 (JObj [(''error'', JStr ''Missing or invalid prompt'')]), [])
   \<and> handler quota_always (Some ''k'')
        \<lparr>req_method = ''POST'', req_body = Some (JObj [(''prompt'', JStr [])])\<rparr> =
     (respond 400 (JObj [(''error'', JStr ''Missing or invalid prompt'')]), [])"
  using
    invalid_prompt_400
      [of "\<lparr>req_method = ''POST'', req_body = Some (JObj [])\<rparr>" quota_always "Some ''k''"]
    invalid_prompt_400
      [of "\<lparr>req_method = ''POST'', req_body = Some (JObj [(''prompt'', JNum ''5'')])\<rparr>"
          quota_always "Some ''k''"]
    invalid_prompt_400
      [of "\<lparr>req_method = ''POST'', req_body = Some (JObj [(''prompt'', JStr [])])\<rparr>"
          quota_always "Some ''k''"]
  by simp

text \<open>
  C10. With \<^verbatim>\<open>GEMINI_API_KEY\<close> set to the empty string the handler does on every request
  what it does with the variable unset; on a POST with a valid prompt that is the 500
  with \<^verbatim>\<open>{error: "Missing GEMINI_API_KEY env var"}\<close> and no outbound call.
\<close>

theorem empty_key_is_missing_key:
  "handler up (Some []) req = handler up None req
   \<and> (req_method req = ''POST'' \<and> get_prop (req_body req) ''prompt'' = Some (JStr p) \<and> p \<noteq> []
        \<longrightarrow> handler up (Some []) req =
              (respond 500 (JObj [(''error'', JStr ''Missing GEMINI_API_KEY env var'')]), []))"
  by (auto simp add: handler_def handler_try_def get_prop_js_or_empty split: option.splits)

theorem empty_key_is_missing_key_witness:
  "handler quota_always (Some []) post_hi = handler quota_always None post_hi
   \<and> handler quota_always (Some []) post_hi =
       (respond 500 (JObj [(''error'', JStr ''Missing GEMINI_API_KEY env var'')]), [])"
proof -
  have "req_method post_hi = ''POST'' \<and> get_prop (req_body post_hi) ''prompt'' = Some (JStr ''hi'')
        \<and> ''hi'' \<noteq> []"
    by (simp add: post_hi_def)
  with empty_key_is_missing_key [of quota_always post_hi "''hi''"] show ?thesis
    by blast
qed

section \<open>The loop of \<^verbatim>\<open>fetchWithRetry\<close>, one turn at a time\<close>

lemma fetches_append [simp]: "fetches (xs @ ys) = fetches xs + fetches ys"
  by (simp add: fetches_def)

lemma fetches_simps [simp]:
  "fetches [] = 0" "fetches (Fetch u opts # tr) = Suc (fetches tr)" "fetches (Sleep ms # tr) = fetches tr"
  by (simp_all add: fetches_def)

lemma transient_not_ok: "st = 429 \<or> st = 503 \<Longrightarrow> \<not> res_ok st"
  by (auto simp add: res_ok_def)

lemma fwr_exhausted:
  "\<not> attempt \<le> maxAttempts \<Longrightarrow>
   fetchWithRetry_from up url opts maxAttempts attempt lastErr tr =
     (Inl (case lastErr of Some e \<Rightarrow> e | None \<Rightarrow> Error ''Falha desconhecida no retry.''), tr)"
  by (subst fetchWithRetry_from.simps) simp

lemma fwr_rejects:
  "attempt \<le> maxAttempts \<Longrightarrow> up (fetches tr) = Rejects e \<Longrightarrow>
   fetchWithRetry_from up url opts maxAttempts attempt lastErr tr = (Inl e, tr @ [Fetch url opts])"
  by (subst fetchWithRetry_from.simps) (simp add: fetch_def)

lemma fwr_ok:
  "attempt \<le> maxAttempts \<Longrightarrow> up (fetches tr) = Resolves st b \<Longrightarrow> res_ok st \<Longrightarrow>
   fetchWithRetry_from up url opts maxAttempts attempt lastErr tr =
     (Inr (st, json_catch b), tr @ [Fetch url opts])"
  by (subst fetchWithRetry_from.simps) (simp add: fetch_def)

lemma fwr_retry:
  "attempt < maxAttempts \<Longrightarrow> up (fetches tr) = Resolves st b \<Longrightarrow>
   st = 429 \<or> st = 503 \<Longrightarrow> status_msg st (msg_of (json_catch b)) = Inr m \<Longrightarrow>
   fetchWithRetry_from up url opts maxAttempts attempt lastErr tr =
     fetchWithRetry_from up url opts maxAttempts (attempt + 1)
       (Some ((Error m)\<lparr>err_status := Some st\<rparr>))
       (tr @ [Fetch url opts, Sleep (1000 * 2 ^ (attempt - 1))])"
  by (subst fetchWithRetry_from.simps) (auto simp add: fetch_def sleep_def Let_def res_ok_def)

lemma fwr_retry_throws:
  "attempt < maxAttempts \<Longrightarrow> up (fetches tr) = Resolves st b \<Longrightarrow>
   st = 429 \<or> st = 503 \<Longrightarrow> status_msg st (msg_of (json_catch b)) = Inl e \<Longrightarrow>
   fetchWithRetry_from up url opts maxAttempts attempt lastErr tr =
     (Inl e, tr @ [Fetch url opts, Sleep (1000 * 2 ^ (attempt - 1))])"
  by (subst fetchWithRetry_from.simps) (auto simp add: fetch_def sleep_def Let_def res_ok_def)

lemma fwr_fail:
  "attempt \<le> maxAttempts \<Longrightarrow> up (fetches tr) = Resolves st b \<Longrightarrow> \<not> res_ok st \<Longrightarrow>
   \<not> ((st = 429 \<or> st = 503) \<and> attempt < maxAttempts) \<Longrightarrow>
   status_msg st (msg_of (json_catch b)) = Inr m \<Longrightarrow>
   fetchWithRetry_from up url opts maxAttempts attempt lastErr tr =
     (Inl ((Error m)\<lparr>err_status := Some st, err_data := Some (json_catch b)\<rparr>),
      tr @ [Fetch url opts])"
  by (subst fetchWithRetry_from.simps) (auto simp add: fetch_def Let_def)

lemma fwr_fail_throws:
  "attempt \<le> maxAttempts \<Longrightarrow> up (fetches tr) = Resolves st b \<Longrightarrow> \<not> res_ok st \<Longrightarrow>
   \<not> ((st = 429 \<or> st = 503) \<and> attempt < maxAttempts) \<Longrightarrow>
   status_msg st (msg_of (json_catch b)) = Inl e \<Longrightarrow>
   fetchWithRetry_from up url opts maxAttempts attempt lastErr tr = (Inl e, tr @ [Fetch url opts])"
  by (subst fetchWithRetry_from.simps) (auto simp add: fetch_def Let_def)

text \<open>The seven ways one turn of the loop can go.\<close>

lemma fwr_cases [case_names exhausted rejects ok retry retry_throws fail fail_throws]:
  obtains
    "\<not> (attempt :: nat) \<le> maxAttempts"
  | e where "attempt \<le> maxAttempts" "up (fetches tr) = Rejects e"
  | st b where "attempt \<le> maxAttempts" "up (fetches tr) = Resolves st b" "res_ok st"
  | st b m where "attempt < maxAttempts" "up (fetches tr) = Resolves st b"
      "st = 429 \<or> st = 503" "status_msg st (msg_of (json_catch b)) = Inr m"
  | st b e where "attempt < maxAttempts" "up (fetches tr) = Resolves st b"
      "st = 429 \<or> st = 503" "status_msg st (msg_of (json_catch b)) = Inl e"
  | st b m where "attempt \<le> maxAttempts" "up (fetches tr) = Resolves st b" "\<not> res_ok st"
      "\<not> ((st = 429 \<or> st = 503) \<and> attempt < maxAttempts)"
      "status_msg st (msg_of (json_catch b)) = Inr m"
  | st b e where "attempt \<le> maxAttempts" "up (fetches tr) = Resolves st b" "\<not> res_ok st"
      "\<not> ((st = 429 \<or> st = 503) \<and> attempt < maxAttempts)"
      "status_msg st (msg_of (json_catch b)) = Inl e"
proof (cases "attempt \<le> maxAttempts")
  case False
  then show ?thesis using that(1) by blast
next
  case le: True
  show ?thesis
  proof (cases "up (fetches tr)")
    case (Rejects e)
    with le show ?thesis using that(2) by blast
  next
    case (Resolves st b)
    show ?thesis
    proof (cases "res_ok st")
      case True
      with le Resolves show ?thesis using that(3) by blast
    next
      case nok: False
      show ?thesis
      proof (cases "(st = 429 \<or> st = 503) \<and> attempt < maxAttempts")
        case False
        with le Resolves nok show ?thesis using that(6,7)
          by (cases "status_msg st (msg_of (json_catch b))") blast+
      next
        case True
        then show ?thesis using Resolves that(4,5)
          by (cases "status_msg st (msg_of (json_catch b))") blast+
      qed
    qed
  qed
qed

text \<open>
  The call only adds effects, and its requests all go to the given address with the
  given options: at least one when the loop is entered, at most one for each attempt left.
\<close>

lemma fwr_trace:
  "\<exists>k ev. snd (fetchWithRetry_from up url opts maxAttempts attempt lastErr tr) = tr @ ev
      \<and> filter is_fetch ev = replicate k (Fetch url opts)
      \<and> k \<le> Suc maxAttempts - attempt \<and> (attempt \<le> maxAttempts \<longrightarrow> 0 < k)"
proof (induction "maxAttempts - attempt" arbitrary: attempt lastErr tr rule: less_induct)
  case less
  show ?case
  proof (cases rule: fwr_cases [where attempt = attempt and maxAttempts = maxAttempts and up = up and tr = tr])
    case exhausted
    then show ?thesis by (simp add: fwr_exhausted)
  next
    case (rejects e)
    then show ?thesis
      by (intro exI [of _ 1] exI [of _ "[Fetch url opts]"]) (auto simp add: fwr_rejects)
  next
    case (ok st b)
    then show ?thesis
      by (intro exI [of _ 1] exI [of _ "[Fetch url opts]"]) (auto simp add: fwr_ok)
  next
    case (retry st b m)
    let ?tr2 = "tr @ [Fetch url opts, Sleep (1000 * 2 ^ (attempt - 1))]"
    let ?le = "Some ((Error m)\<lparr>err_status := Some st\<rparr>)"
    from retry have "maxAttempts - (attempt + 1) < maxAttempts - attempt" by simp
    from less [OF this, of ?le ?tr2]
    obtain k ev where
      "snd (fetchWithRetry_from up url opts maxAttempts (attempt + 1) ?le ?tr2) = ?tr2 @ ev"
      "filter is_fetch ev = replicate k (Fetch url opts)"
      "k \<le> Suc maxAttempts - (attempt + 1)" "attempt + 1 \<le> maxAttempts \<longrightarrow> 0 < k"
      by blast
    with retry show ?thesis
      by (intro exI [of _ "Suc k"] exI [of _ "[Fetch url opts, Sleep (1000 * 2 ^ (attempt - 1))] @ ev"])
         (auto simp add: fwr_retry)
  next
    case (retry_throws st b e)
    then show ?thesis
      by (intro exI [of _ 1] exI [of _ "[Fetch url opts, Sleep (1000 * 2 ^ (attempt - 1))]"])
         (auto simp add: fwr_retry_throws)
  next
    case (fail st b m)
    then show ?thesis
      by (intro exI [of _ 1] exI [of _ "[Fetch url opts]"]) (auto simp add: fwr_fail)
  next
    case (fail_throws st b e)
    then show ?thesis
      by (intro exI [of _ 1] exI [of _ "[Fetch url opts]"]) (auto simp add: fwr_fail_throws)
  qed
qed

text \<open>
  A response with a 2xx status, at whichever attempt it comes, ends the call with its
  status and \<^verbatim>\<open>data\<close>.
\<close>

lemma fwr_2xx:
  "fetchWithRetry_from up url opts maxAttempts attempt lastErr tr = (r, tr') \<Longrightarrow>
   fetches tr \<le> i \<Longrightarrow> i < fetches tr' \<Longrightarrow> up i = Resolves st b \<Longrightarrow> res_ok st \<Longrightarrow>
   r = Inr (st, json_catch b)"
proof (induction "maxAttempts - attempt" arbitrary: attempt lastErr tr rule: less_induct)
  case less
  show ?case
  proof (cases rule: fwr_cases [where attempt = attempt and maxAttempts = maxAttempts and up = up and tr = tr])
    case exhausted
    with less.prems show ?thesis by (simp add: fwr_exhausted)
  next
    case (rejects e)
    with less.prems have "i = fetches tr" by (auto simp add: fwr_rejects)
    with rejects less.prems show ?thesis by simp
  next
    case (ok st' b')
    with less.prems have "i = fetches tr" by (auto simp add: fwr_ok)
    with ok less.prems show ?thesis by (auto simp add: fwr_ok)
  next
    case (retry st' b' m)
    let ?tr2 = "tr @ [Fetch url opts, Sleep (1000 * 2 ^ (attempt - 1))]"
    let ?le = "Some ((Error m)\<lparr>err_status := Some st'\<rparr>)"
    from retry have lt: "maxAttempts - (attempt + 1) < maxAttempts - attempt" by simp
    from retry less.prems(1)
    have run: "fetchWithRetry_from up url opts maxAttempts (attempt + 1) ?le ?tr2 = (r, tr')"
      by (simp add: fwr_retry)
    have "i \<noteq> fetches tr"
      using retry less.prems(4,5) transient_not_ok [of st'] by auto
    with less.prems(2) have "fetches ?tr2 \<le> i" by simp
    from less.hyps [OF lt run this less.prems(3,4,5)] show ?thesis .
  next
    case (retry_throws st' b' e)
    with less.prems have "i = fetches tr" by (auto simp add: fwr_retry_throws)
    with retry_throws less.prems transient_not_ok [of st'] show ?thesis by auto
  next
    case (fail st' b' m)
    with less.prems have "i = fetches tr" by (auto simp add: fwr_fail)
    with fail less.prems show ?thesis by auto
  next
    case (fail_throws st' b' e)
    with less.prems have "i = fetches tr" by (auto simp add: fwr_fail_throws)
    with fail_throws less.prems show ?thesis by auto
  qed
qed


section \<open>The handler on a request\<close>

lemma typeof_string_iff: "typeof v = ''string'' \<longleftrightarrow> (\<exists>s. v = JStr s)"
  by (cases v) simp_all

text \<open>The three early returns, or an accepted request.\<close>

lemma handler_try_cases [case_names not_post bad_prompt no_key accepted]:
  obtains
    "handler_try up env req =
       (Inr (respond 405 (JObj [(''error'', JStr ''Method not allowed'')])), [])"
  | "handler_try up env req =
       (Inr (respond 400 (JObj [(''error'', JStr ''Missing or invalid prompt'')])), [])"
  | "handler_try up env req =
       (Inr (respond 500 (JObj [(''error'', JStr ''Missing GEMINI_API_KEY env var'')])), [])"
  | p key where "req_method req = ''POST''" "get_prop (req_body req) ''prompt'' = Some (JStr p)"
      "p \<noteq> []" "env = Some key" "key \<noteq> []"
proof (cases "req_method req = ''POST''")
  case False
  then show ?thesis using that(1) by (simp add: handler_try_def)
next
  case post: True
  show ?thesis
  proof (cases "\<exists>p. get_prop (req_body req) ''prompt'' = Some (JStr p) \<and> p \<noteq> []")
    case False
    with post have "handler_try up env req =
       (Inr (respond 400 (JObj [(''error'', JStr ''Missing or invalid prompt'')])), [])"
      by (auto simp add: handler_try_def get_prop_js_or_empty typeof_string_iff split: option.splits)
    then show ?thesis using that(2) by blast
  next
    case True
    then obtain p where p: "get_prop (req_body req) ''prompt'' = Some (JStr p)" "p \<noteq> []"
      by blast
    show ?thesis
    proof (cases "\<exists>key. env = Some key \<and> key \<noteq> []")
      case False
      with post p have "handler_try up env req =
         (Inr (respond 500 (JObj [(''error'', JStr ''Missing GEMINI_API_KEY env var'')])), [])"
        by (auto simp add: handler_try_def get_prop_js_or_empty split: option.splits)
      then show ?thesis using that(3) by blast
    next
      case True
      with post p show ?thesis using that(4) by blast
    qed
  qed
qed

text \<open>
  An accepted request: the primary call, and the fallback call when the error of the
  primary call carries the status 429 or 503.
\<close>

lemma handler_try_accepted:
  assumes "req_method req = ''POST''" "get_prop (req_body req) ''prompt'' = Some (JStr p)"
    "p \<noteq> []" "env = Some key" "key \<noteq> []"
  shows "handler_try up env req =
     (case fetchWithRetry_from up (gemini_url MODEL_PRIMARY key) (gemini_options (JStr p)) 4 1 None [] of
        (Inr (st, data), tr1) \<Rightarrow> (Inr (respond 200 data), tr1)
      | (Inl e, tr1) \<Rightarrow>
          if err_status e = Some 429 \<or> err_status e = Some 503 then
            (case fetchWithRetry_from up (gemini_url MODEL_FALLBACK key) (gemini_options (JStr p)) 4 1 None tr1 of
               (Inr (st, data), tr2) \<Rightarrow> (Inr (respond 200 data), tr2)
             | (Inl e2, tr2) \<Rightarrow> (Inl e2, tr2))
          else (Inl e, tr1))"
  using assms
  by (auto simp add: handler_try_def get_prop_js_or_empty callGemini_def fetchWithRetry_def Let_def
      split: option.splits prod.splits sum.splits)

text \<open>
  A response with a 2xx status to any request of the handler, to either target and at any
  attempt, makes the handler answer 200 with the \<^verbatim>\<open>data\<close> read from that response.
\<close>


lemma ok_response_is_answer:
  assumes run: "handler up env req = (r, tr)"
    and i: "i < fetches tr" "up i = Resolves st b" "res_ok st"
  shows "r = respond 200 (json_catch b)"
proof (cases rule: handler_try_cases [of up env req])
  case not_post
  with run i show ?thesis by (simp add: handler_def)
next
  case bad_prompt
  with run i show ?thesis by (simp add: handler_def)
next
  case no_key
  with run i show ?thesis by (simp add: handler_def)
next
  case (accepted p key)
  let ?opts = "gemini_options (JStr p)"
  obtain r1 tr1 where
    c1: "fetchWithRetry_from up (gemini_url MODEL_PRIMARY key) ?opts 4 1 None [] = (r1, tr1)"
    by (cases "fetchWithRetry_from up (gemini_url MODEL_PRIMARY key) ?opts 4 1 None []") blast
  obtain r2 tr2 where
    c2: "fetchWithRetry_from up (gemini_url MODEL_FALLBACK key) ?opts 4 1 None tr1 = (r2, tr2)"
    by (cases "fetchWithRetry_from up (gemini_url MODEL_FALLBACK key) ?opts 4 1 None tr1") blast
  note h = handler_try_accepted [OF accepted, of up]
  show ?thesis
  proof (cases "i < fetches tr1")
    case True
    from fwr_2xx [OF c1 _ True i(2,3)] have "r1 = Inr (st, json_catch b)" by simp
    with run h c1 show ?thesis by (simp add: handler_def)
  next
    case False
    then have ge: "fetches tr1 \<le> i" by simp
    have "tr \<noteq> tr1" using False i(1) by auto
    with run h c1 c2 have tr: "tr = tr2" and fb: "\<exists>e. r1 = Inl e"
      by (auto simp add: handler_def split: sum.splits if_splits)
    from fwr_2xx [OF c2 ge _ i(2,3)] i(1) tr have "r2 = Inr (st, json_catch b)" by simp
    with run h c1 c2 fb \<open>tr \<noteq> tr1\<close> show ?thesis
      by (auto simp add: handler_def split: sum.splits if_splits)
  qed
qed

text \<open>
  C8, as amended. Whenever one of the requests of the handler gets a response with a 2xx
  status, the handler answers 200, and the body of the answer is the value that
  \<^verbatim>\<open>res.json()\<close> parsed from the body of that response, passed on as it is; when that
  body is not JSON the body of the answer is \<^verbatim>\<open>{}\<close>. This is about the parsed value,
  not about the bytes the endpoint sent.
\<close>

theorem success_payload_unmodified:
  assumes "handler up env req = (r, tr)"
    and "i < fetches tr" and "up i = Resolves st b" and "res_ok st"
  shows "r = respond 200 (case b of Inl e \<Rightarrow> JObj [] | Inr p \<Rightarrow> p)"
  using ok_response_is_answer [OF assms] by (simp add: json_catch_def)

theorem success_payload_unmodified_witness:
  "fst (handler quota_then_answer (Some ''k'') post_hi) = respond 200 answer_body
   \<and> 4 < fetches (snd (handler quota_then_answer (Some ''k'') post_hi))
   \<and> quota_then_answer 4 = Resolves 200 (Inr answer_body) \<and> res_ok 200
   \<and> fst (handler not_json_always (Some ''k'') post_hi) = respond 200 (JObj [])
   \<and> 0 < fetches (snd (handler not_json_always (Some ''k'') post_hi))
   \<and> not_json_always 0 = Resolves 200 (Inl json_syntax_error)"
proof -
  let ?r = "fst (handler quota_then_answer (Some ''k'') post_hi)"
  let ?tr = "snd (handler quota_then_answer (Some ''k'') post_hi)"
  let ?r' = "fst (handler not_json_always (Some ''k'') post_hi)"
  let ?tr' = "snd (handler not_json_always (Some ''k'') post_hi)"
  have run: "handler quota_then_answer (Some ''k'') post_hi = (?r, ?tr)"
    and run': "handler not_json_always (Some ''k'') post_hi = (?r', ?tr')"
    by simp_all
  have n: "4 < fetches ?tr" and n': "0 < fetches ?tr'"
    by code_simp+
  have u: "quota_then_answer 4 = Resolves 200 (Inr answer_body)"
    and u': "not_json_always 0 = Resolves 200 (Inl json_syntax_error)"
    by (simp_all add: quota_then_answer_def not_json_always_def)
  have ok: "res_ok 200"
    by (simp add: res_ok_def)
  from success_payload_unmodified [OF run n u ok] success_payload_unmodified [OF run' n' u' ok]
  have "?r = respond 200 answer_body" "?r' = respond 200 (JObj [])"
    by simp_all
  with n n' u u' ok show ?thesis by simp
qed

text \<open>
  The claim as written, that the answer is exactly the upstream payload, fails on a 200
  whose body is not JSON: the caller gets the JSON value \<^verbatim>\<open>{}\<close>, which the endpoint
  never sent.
\<close>

theorem success_payload_unmodified_counterexample:
  "not_json_always 0 = Resolves 200 (Inl json_syntax_error)
   \<and> handler not_json_always (Some ''k'') post_hi =
       (respond 200 (JObj []), [Fetch primary_url_k options_hi])"
  by code_simp





text \<open>The only error a conversion to string throws; a message it builds is never empty.\<close>

lemma to_string_throws:
  "to_string v = Inl e \<Longrightarrow> e = TypeError_primitive"
  "join vs = Inl e \<Longrightarrow> e = TypeError_primitive"
  by (induction v and vs rule: to_string_join.induct) (auto split: if_splits sum.splits)

lemma status_msg_Inl: "status_msg st m = Inl e \<Longrightarrow> e = TypeError_primitive"
  by (cases m) (auto simp add: status_msg_def to_string_throws split: sum.splits)

lemma status_msg_Inr: "status_msg st m = Inr t \<Longrightarrow> t \<noteq> []"
  by (auto simp add: status_msg_def split: sum.splits)

text \<open>
  A first response of the primary target whose status is neither 2xx nor 429 nor 503: the
  only effect of the request is that one call of \<^verbatim>\<open>fetch\<close> (no sleep, no second attempt,
  nothing sent to the fallback target) and the answer is a 500. When the extracted value
  (\<^verbatim>\<open>payload.error.message\<close> if truthy, else \<^verbatim>\<open>payload.error\<close> if truthy, else the JSON
  text of the payload) converts to a string, the message of the 500 is the status, a
  colon, a space and that string.
\<close>

lemma permanent_failure_no_retry:
  assumes acc: "req_method req = ''POST''" "get_prop (req_body req) ''prompt'' = Some (JStr p)"
      "p \<noteq> []" "env = Some key" "key \<noteq> []"
    and first: "up 0 = Resolves st b" "\<not> res_ok st" "st \<noteq> 429" "st \<noteq> 503"
  shows "snd (handler up env req) = [Fetch (gemini_url MODEL_PRIMARY key) (gemini_options (JStr p))]
    \<and> res_status (fst (handler up env req)) = 500
    \<and> (\<forall>s. to_string_opt
             (if truthy_opt (get_prop (get_prop (Some (json_catch b)) ''error'') ''message'')
              then get_prop (get_prop (Some (json_catch b)) ''error'') ''message''
              else if truthy_opt (get_prop (Some (json_catch b)) ''error'')
              then get_prop (Some (json_catch b)) ''error''
              else Some (JStr (stringify (json_catch b)))) = Inr s
          \<longrightarrow> fst (handler up env req) =
                respond 500 (JObj [(''error'', JObj [(''message'', JStr (decimal st @ '': '' @ s))])]))"
proof -
  let ?v = "if truthy_opt (get_prop (get_prop (Some (json_catch b)) ''error'') ''message'')
            then get_prop (get_prop (Some (json_catch b)) ''error'') ''message''
            else if truthy_opt (get_prop (Some (json_catch b)) ''error'')
            then get_prop (Some (json_catch b)) ''error''
            else Some (JStr (stringify (json_catch b)))"
  let ?P = "Fetch (gemini_url MODEL_PRIMARY key) (gemini_options (JStr p))"
  have v: "msg_of (json_catch b) = ?v"
    by (simp add: msg_of_def js_or_def)
  show ?thesis
  proof (cases "to_string_opt ?v")
    case (Inl e)
    then have sm: "status_msg st (msg_of (json_catch b)) = Inl e"
      by (simp add: status_msg_def v)
    have "fetchWithRetry_from up (gemini_url MODEL_PRIMARY key) (gemini_options (JStr p)) 4 1 None [] =
            (Inl e, [?P])"
      using fwr_fail_throws [of 1 4 up "[]" st b e] first sm by simp
    moreover from status_msg_Inl [OF sm] have "err_status e = None"
      by (simp add: TypeError_primitive_def)
    ultimately have "handler_try up env req = (Inl e, [?P])"
      using handler_try_accepted [OF acc, of up] by simp
    then have "snd (handler up env req) = [?P]" "res_status (fst (handler up env req)) = 500"
      by (simp_all add: handler_def respond_def)
    with Inl show ?thesis by simp
  next
    case (Inr s)
    then have sm: "status_msg st (msg_of (json_catch b)) = Inr (decimal st @ '': '' @ s)"
      by (simp add: status_msg_def v)
    have "fetchWithRetry_from up (gemini_url MODEL_PRIMARY key) (gemini_options (JStr p)) 4 1 None [] =
            (Inl ((Error (decimal st @ '': '' @ s))
                    \<lparr>err_status := Some st, err_data := Some (json_catch b)\<rparr>), [?P])"
      using fwr_fail [of 1 4 up "[]" st b "decimal st @ '': '' @ s"] first sm by simp
    with first have "handler_try up env req =
        (Inl ((Error (decimal st @ '': '' @ s))
                \<lparr>err_status := Some st, err_data := Some (json_catch b)\<rparr>), [?P])"
      using handler_try_accepted [OF acc, of up] by simp
    then have "handler up env req =
        (respond 500 (JObj [(''error'', JObj [(''message'', JStr (decimal st @ '': '' @ s))])]), [?P])"
      by (simp add: handler_def Error_def)
    with Inr show ?thesis by (simp add: respond_def)
  qed
qed

text \<open>
  C6, at an input where the code falls short of it. The primary target answers 400 with
  the body \<^verbatim>\<open>{"error": {"toString": 1}}\<close>. There is no retry and no fallback call, and
  the answer is a 500, but its message is the text of the \<^verbatim>\<open>TypeError\<close> that line 34
  throws while building the message: it says nothing of the upstream body, and is the
  same for another body of that kind.
\<close>

theorem permanent_failure_tostring_body:
  "handler tostring_400_always (Some ''k'') post_hi =
     (respond 500
        (JObj [(''error'',
                JObj [(''message'', JStr ''Cannot convert object to primitive value'')])]),
      [Fetch primary_url_k options_hi])
   \<and> handler tostring_code_400_always (Some ''k'') post_hi =
     (respond 500
        (JObj [(''error'',
                JObj [(''message'', JStr ''Cannot convert object to primitive value'')])]),
      [Fetch primary_url_k options_hi])
   \<and> tostring_body \<noteq> tostring_code_body"
  by code_simp


lemma decimal_400: "decimal 400 = ''400''"
  by code_simp


text \<open>
  One call of \<^verbatim>\<open>fetchWithRetry\<close> with the budget of 4, entered at attempt \<open>a\<close>: its
  effects are an initial part, at least the first request, of what is left of the
  sequence request, sleep 1000, request, sleep 2000, request, sleep 4000, request. An error
  that carries a status leaves that part ending with a request.
\<close>

lemma fwr_schedule:
  assumes "1 \<le> a" and "a \<le> 4"
  shows "\<exists>n. 0 < n \<and> n \<le> 9 - 2 * a
           \<and> snd (fetchWithRetry_from up url opts 4 a lastErr tr) =
               tr @ take n (drop (2 * a - 2)
                      [Fetch url opts, Sleep 1000, Fetch url opts, Sleep 2000,
                       Fetch url opts, Sleep 4000, Fetch url opts])
           \<and> ((\<exists>e. fst (fetchWithRetry_from up url opts 4 a lastErr tr) = Inl e
                    \<and> err_status e \<noteq> None) \<longrightarrow> odd n)"
  using assms
proof (induction "4 - a" arbitrary: a lastErr tr rule: less_induct)
  case less
  from less.prems have a: "a = 1 \<or> a = 2 \<or> a = 3 \<or> a = 4" by arith
  show ?case
  proof (cases rule: fwr_cases [where attempt = a and maxAttempts = 4 and up = up and tr = tr])
    case exhausted
    with less.prems show ?thesis by simp
  next
    case (rejects e)
    then have "fetchWithRetry_from up url opts 4 a lastErr tr = (Inl e, tr @ [Fetch url opts])"
      by (rule fwr_rejects)
    with a show ?thesis
      by (intro exI [of _ 1]) auto
  next
    case (ok st b)
    then have "fetchWithRetry_from up url opts 4 a lastErr tr =
        (Inr (st, json_catch b), tr @ [Fetch url opts])"
      by (rule fwr_ok)
    with a show ?thesis
      by (intro exI [of _ 1]) auto
  next
    case (fail st b m)
    then have "fetchWithRetry_from up url opts 4 a lastErr tr =
        (Inl ((Error m)\<lparr>err_status := Some st, err_data := Some (json_catch b)\<rparr>),
         tr @ [Fetch url opts])"
      by (rule fwr_fail)
    with a show ?thesis
      by (intro exI [of _ 1]) auto
  next
    case (fail_throws st b e)
    then have "fetchWithRetry_from up url opts 4 a lastErr tr = (Inl e, tr @ [Fetch url opts])"
      by (rule fwr_fail_throws)
    with a show ?thesis
      by (intro exI [of _ 1]) auto
  next
    case (retry_throws st b e)
    then have run: "fetchWithRetry_from up url opts 4 a lastErr tr =
        (Inl e, tr @ [Fetch url opts, Sleep (1000 * 2 ^ (a - 1))])"
      by (rule fwr_retry_throws)
    from retry_throws(4) have "e = TypeError_primitive" by (rule status_msg_Inl)
    then have "err_status e = None" by (simp add: TypeError_primitive_def)
    moreover from retry_throws(1) a have "a = 1 \<or> a = 2 \<or> a = 3" by arith
    ultimately show ?thesis using run
      by (intro exI [of _ 2]) auto
  next
    case (retry st b m)
    let ?le = "Some ((Error m)\<lparr>err_status := Some st\<rparr>)"
    let ?tr2 = "tr @ [Fetch url opts, Sleep (1000 * 2 ^ (a - 1))]"
    from retry have run: "fetchWithRetry_from up url opts 4 a lastErr tr =
        fetchWithRetry_from up url opts 4 (a + 1) ?le ?tr2"
      by (rule fwr_retry)
    from retry(1) less.prems have "4 - (a + 1) < 4 - a" "1 \<le> a + 1" "a + 1 \<le> 4" by simp_all
    from less.hyps [OF this, of ?le ?tr2] obtain n where n:
      "0 < n" "n \<le> 9 - 2 * (a + 1)"
      "snd (fetchWithRetry_from up url opts 4 (a + 1) ?le ?tr2) =
         ?tr2 @ take n (drop (2 * (a + 1) - 2)
                      [Fetch url opts, Sleep 1000, Fetch url opts, Sleep 2000,
                       Fetch url opts, Sleep 4000, Fetch url opts])"
      "(\<exists>e. fst (fetchWithRetry_from up url opts 4 (a + 1) ?le ?tr2) = Inl e
                    \<and> err_status e \<noteq> None) \<longrightarrow> odd n"
      by blast
    from retry(1) a have "a = 1 \<or> a = 2 \<or> a = 3" by arith
    with n run show ?thesis
      by (intro exI [of _ "Suc (Suc n)"]) auto
  qed
qed

text \<open>
  C7, as amended. On an accepted request (POST, a non-empty string prompt, a non-empty
  key) the effects of the handler are, in order, an initial part, at least the first
  request, of the sequence request, sleep 1000 ms, request, sleep 2000 ms, request, sleep
  4000 ms, request to the primary target; then, only when that part ends with a request,
  an initial part (it may be empty) of the same sequence to the fallback target. All
  requests have the same options. So there are between one and four requests to the
  primary target, then between none and four to the fallback target, and no effect other
  than these requests and sleeps. A request that is not accepted has no effect at all.
\<close>

theorem outbound_requests:
  "(req_method req = ''POST'' \<and> get_prop (req_body req) ''prompt'' = Some (JStr p) \<and> p \<noteq> []
      \<and> env = Some key \<and> key \<noteq> []
    \<longrightarrow> (\<exists>n m. 0 < n \<and> n \<le> 7 \<and> m \<le> 7 \<and> (0 < m \<longrightarrow> odd n)
           \<and> snd (handler up env req) =
               take n [Fetch (gemini_url MODEL_PRIMARY key) (gemini_options (JStr p)), Sleep 1000,
                       Fetch (gemini_url MODEL_PRIMARY key) (gemini_options (JStr p)), Sleep 2000,
                       Fetch (gemini_url MODEL_PRIMARY key) (gemini_options (JStr p)), Sleep 4000,
                       Fetch (gemini_url MODEL_PRIMARY key) (gemini_options (JStr p))]
               @ take m [Fetch (gemini_url MODEL_FALLBACK key) (gemini_options (JStr p)), Sleep 1000,
                         Fetch (gemini_url MODEL_FALLBACK key) (gemini_options (JStr p)), Sleep 2000,
                         Fetch (gemini_url MODEL_FALLBACK key) (gemini_options (JStr p)), Sleep 4000,
                         Fetch (gemini_url MODEL_FALLBACK key) (gemini_options (JStr p))])
        \<and> (\<exists>k j. 0 < k \<and> k \<le> 4 \<and> j \<le> 4
           \<and> filter is_fetch (snd (handler up env req)) =
               replicate k (Fetch (gemini_url MODEL_PRIMARY key) (gemini_options (JStr p)))
               @ replicate j (Fetch (gemini_url MODEL_FALLBACK key) (gemini_options (JStr p)))))
   \<and> (\<not> (req_method req = ''POST''
          \<and> (\<exists>p. get_prop (req_body req) ''prompt'' = Some (JStr p) \<and> p \<noteq> [])
          \<and> (\<exists>key. env = Some key \<and> key \<noteq> []))
      \<longrightarrow> snd (handler up env req) = [])"
proof (intro conjI impI)
  assume "\<not> (req_method req = ''POST''
          \<and> (\<exists>p. get_prop (req_body req) ''prompt'' = Some (JStr p) \<and> p \<noteq> [])
          \<and> (\<exists>key. env = Some key \<and> key \<noteq> []))"
  then show "snd (handler up env req) = []"
    by (cases rule: handler_try_cases [of up env req]) (auto simp add: handler_def)
next
  assume "req_method req = ''POST'' \<and> get_prop (req_body req) ''prompt'' = Some (JStr p) \<and> p \<noteq> []
      \<and> env = Some key \<and> key \<noteq> []"
  then have acc: "req_method req = ''POST''" "get_prop (req_body req) ''prompt'' = Some (JStr p)"
      "p \<noteq> []" "env = Some key" "key \<noteq> []"
    by simp_all
  let ?opts = "gemini_options (JStr p)"
  let ?P = "Fetch (gemini_url MODEL_PRIMARY key) ?opts"
  let ?F = "Fetch (gemini_url MODEL_FALLBACK key) ?opts"
  let ?run1 = "fetchWithRetry_from up (gemini_url MODEL_PRIMARY key) ?opts 4 1 None []"
  obtain r1 tr1 where c1: "?run1 = (r1, tr1)"
    by (cases ?run1) blast
  let ?run2 = "fetchWithRetry_from up (gemini_url MODEL_FALLBACK key) ?opts 4 1 None tr1"
  obtain r2 tr2 where c2: "?run2 = (r2, tr2)"
    by (cases ?run2) blast
  from fwr_schedule [of 1 up "gemini_url MODEL_PRIMARY key" ?opts None "[]"] c1
  obtain n where n: "0 < n" "n \<le> 7"
    "tr1 = take n [?P, Sleep 1000, ?P, Sleep 2000, ?P, Sleep 4000, ?P]"
    "(\<exists>e. r1 = Inl e \<and> err_status e \<noteq> None) \<longrightarrow> odd n"
    by auto
  from fwr_schedule [of 1 up "gemini_url MODEL_FALLBACK key" ?opts None tr1] c2
  obtain m where m: "0 < m" "m \<le> 7"
    "tr2 = tr1 @ take m [?F, Sleep 1000, ?F, Sleep 2000, ?F, Sleep 4000, ?F]"
    by auto
  have "snd (handler up env req) = tr1
        \<or> (snd (handler up env req) = tr2 \<and> (\<exists>e. r1 = Inl e \<and> err_status e \<noteq> None))"
    using handler_try_accepted [OF acc, of up] c1 c2
    by (auto simp add: handler_def split: sum.splits prod.splits if_splits)
  then show "\<exists>n m. 0 < n \<and> n \<le> 7 \<and> m \<le> 7 \<and> (0 < m \<longrightarrow> odd n)
           \<and> snd (handler up env req) =
               take n [?P, Sleep 1000, ?P, Sleep 2000, ?P, Sleep 4000, ?P]
               @ take m [?F, Sleep 1000, ?F, Sleep 2000, ?F, Sleep 4000, ?F]"
  proof
    assume "snd (handler up env req) = tr1"
    with n show ?thesis
      by (intro exI [of _ n] exI [of _ 0]) simp
  next
    assume "snd (handler up env req) = tr2 \<and> (\<exists>e. r1 = Inl e \<and> err_status e \<noteq> None)"
    with n m show ?thesis
      by (intro exI [of _ n] exI [of _ m]) simp
  qed
  from fwr_trace [of up "gemini_url MODEL_PRIMARY key" ?opts 4 1 None "[]"] c1
  obtain k where k: "filter is_fetch tr1 = replicate k ?P" "k \<le> 4" "0 < k"
    by auto
  from fwr_trace [of up "gemini_url MODEL_FALLBACK key" ?opts 4 1 None tr1] c2
  obtain j ev where j: "tr2 = tr1 @ ev" "filter is_fetch ev = replicate j ?F" "j \<le> 4"
    by auto
  have "snd (handler up env req) = tr1 \<or> snd (handler up env req) = tr2"
    using handler_try_accepted [OF acc, of up] c1 c2
    by (auto simp add: handler_def split: sum.splits prod.splits)
  then show "\<exists>k j. 0 < k \<and> k \<le> 4 \<and> j \<le> 4
           \<and> filter is_fetch (snd (handler up env req)) = replicate k ?P @ replicate j ?F"
  proof
    assume "snd (handler up env req) = tr1"
    with k show ?thesis
      by (intro exI [of _ k] exI [of _ 0]) simp
  next
    assume "snd (handler up env req) = tr2"
    with k j show ?thesis
      by (intro exI [of _ k] exI [of _ j]) simp
  qed
qed

theorem outbound_requests_witness:
  "(\<exists>n m. 0 < n \<and> n \<le> 7 \<and> m \<le> 7 \<and> (0 < m \<longrightarrow> odd n)
      \<and> snd (handler quota_always (Some ''k'') post_hi) =
          take n [Fetch primary_url_k options_hi, Sleep 1000,
                  Fetch primary_url_k options_hi, Sleep 2000,
                  Fetch primary_url_k options_hi, Sleep 4000,
                  Fetch primary_url_k options_hi]
          @ take m [Fetch fallback_url_k options_hi, Sleep 1000,
                    Fetch fallback_url_k options_hi, Sleep 2000,
                    Fetch fallback_url_k options_hi, Sleep 4000,
                    Fetch fallback_url_k options_hi])
   \<and> (\<exists>k j. 0 < k \<and> k \<le> 4 \<and> j \<le> 4
      \<and> filter is_fetch (snd (handler quota_always (Some ''k'') post_hi)) =
          replicate k (Fetch primary_url_k options_hi) @ replicate j (Fetch fallback_url_k options_hi))
   \<and> snd (handler quota_always (Some ''k'') get_hi) = []"
  using outbound_requests [of post_hi "''hi''" "Some ''k''" "''k''" quota_always]
    outbound_requests [of get_hi "''hi''" "Some ''k''" "''k''" quota_always]
  by (simp add: post_hi_def get_hi_def primary_url_k_def fallback_url_k_def options_hi_def)


text \<open>
  The claim as written, "exactly one or two outbound HTTP calls", fails both ways: an
  endpoint that always answers 429 is sent eight requests, and a GET request none.
\<close>

theorem outbound_requests_counterexample:
  "fetches (snd (handler quota_always (Some ''k'') post_hi)) = 8
   \<and> fetches (snd (handler quota_always (Some ''k'') get_hi)) = 0"
  by code_simp

section \<open>The message of a failure\<close>

text \<open>
  C4, as amended. When a response that is not 2xx ends the loop with the failure that
  carries its status (the status is not 429 or 503, or it is the last attempt), and the
  extracted value converts to a string, the message of the failure is the status in
  decimal, a colon and a space, and then that string. The extracted value is
  \<^verbatim>\<open>payload.error.message\<close> when it is truthy, otherwise \<^verbatim>\<open>payload.error\<close> when it is
  truthy, otherwise the JSON text of the whole payload. The failure also carries the
  status and the payload.
\<close>

theorem failure_message:
  assumes "attempt \<le> maxAttempts" and "up (fetches tr) = Resolves st b" and "\<not> res_ok st"
    and "\<not> ((st = 429 \<or> st = 503) \<and> attempt < maxAttempts)"
    and "to_string_opt
           (if truthy_opt (get_prop (get_prop (Some (json_catch b)) ''error'') ''message'')
            then get_prop (get_prop (Some (json_catch b)) ''error'') ''message''
            else if truthy_opt (get_prop (Some (json_catch b)) ''error'')
            then get_prop (Some (json_catch b)) ''error''
            else Some (JStr (stringify (json_catch b)))) = Inr s"
  shows "fetchWithRetry_from up url opts maxAttempts attempt lastErr tr =
           (Inl \<lparr>err_name = ''Error'', err_message = decimal st @ '': '' @ s,
                 err_status = Some st, err_data = Some (json_catch b)\<rparr>,
            tr @ [Fetch url opts])"
proof -
  from assms(5) have "status_msg st (msg_of (json_catch b)) = Inr (decimal st @ '': '' @ s)"
    by (simp add: status_msg_def msg_of_def js_or_def split: if_splits)
  with assms(1-4) have "fetchWithRetry_from up url opts maxAttempts attempt lastErr tr =
     (Inl ((Error (decimal st @ '': '' @ s))\<lparr>err_status := Some st, err_data := Some (json_catch b)\<rparr>),
      tr @ [Fetch url opts])"
    by (rule fwr_fail)
  then show ?thesis
    by (simp add: Error_def)
qed

theorem failure_message_witness:
  "fetchWithRetry_from bad_request_always primary_url_k options_hi 4 1 None [] =
     (Inl \<lparr>err_name = ''Error'', err_message = ''400: bad'',
           err_status = Some 400, err_data = Some bad_body\<rparr>,
      [Fetch primary_url_k options_hi])"
  using failure_message [of 1 4 bad_request_always "[]" 400 "Inr bad_body" "''bad''"
      primary_url_k options_hi None]
  by (simp add: bad_request_always_def bad_body_def res_ok_def json_catch_def decimal_400)

text \<open>
  The claim as written fails twice over. The message has the status in front: with
  \<^verbatim>\<open>payload.error.message = "bad"\<close> it is \<^verbatim>\<open>"400: bad"\<close>. And a message that is present
  but empty is passed over for \<^verbatim>\<open>payload.error\<close>, an object, which prints as
  \<^verbatim>\<open>[object Object]\<close>.
\<close>

theorem failure_message_counterexample:
  "fst (fetchWithRetry bad_request_always primary_url_k options_hi 4 []) =
     Inl \<lparr>err_name = ''Error'', err_message = ''400: bad'',
          err_status = Some 400, err_data = Some bad_body\<rparr>
   \<and> get_prop (get_prop (Some bad_body) ''error'') ''message'' = Some (JStr ''bad'')
   \<and> fst (fetchWithRetry empty_message_always primary_url_k options_hi 4 []) =
     Inl \<lparr>err_name = ''Error'', err_message = ''400: [object Object]'',
          err_status = Some 400, err_data = Some empty_message_body\<rparr>
   \<and> get_prop (get_prop (Some empty_message_body) ''error'') ''message'' = Some (JStr [])"
  by code_simp

section \<open>Retry with backoff, and the fallback\<close>

lemma status_msg_text:
  "to_string_opt msg = Inr s \<Longrightarrow> status_msg st msg = Inr (decimal st @ '': '' @ s)"
  by (simp add: status_msg_def)

text \<open>
  A 429 or 503 before the last attempt, with a message that has a text: the loop sleeps
  \<open>1000 * 2 ^ (attempt - 1)\<close> milliseconds and goes on with the next attempt.
\<close>

lemma retry_waits_then_retries:
  assumes "attempt < maxAttempts" and "up (fetches tr) = Resolves st b" and "st = 429 \<or> st = 503"
    and "to_string_opt (msg_of (json_catch b)) = Inr s"
  shows "fetchWithRetry_from up url opts maxAttempts attempt lastErr tr =
           fetchWithRetry_from up url opts maxAttempts (attempt + 1)
             (Some ((Error (decimal st @ '': '' @ s))\<lparr>err_status := Some st\<rparr>))
             (tr @ [Fetch url opts, Sleep (1000 * 2 ^ (attempt - 1))])"
  using assms(1-3) status_msg_text [OF assms(4)] by (rule fwr_retry)

lemma retry_step:
  assumes "attempt < maxAttempts" and "fetches tr = n" and "up n = Resolves st b"
    and "st = 429 \<or> st = 503" and "to_string_opt (msg_of (json_catch b)) = Inr s"
    and "attempt' = attempt + 1" and "w = 1000 * 2 ^ (attempt - 1)"
    and "tr' = tr @ [Fetch url opts, Sleep w]"
  shows "fetchWithRetry_from up url opts maxAttempts attempt lastErr tr =
           fetchWithRetry_from up url opts maxAttempts attempt'
             (Some ((Error (decimal st @ '': '' @ s))\<lparr>err_status := Some st\<rparr>)) tr'"
  using assms retry_waits_then_retries [of attempt maxAttempts up tr st b s url opts lastErr]
  by simp

lemma last_step:
  assumes "fetches tr = n" and "up n = Resolves st b" and "\<not> res_ok st"
    and "to_string_opt (msg_of (json_catch b)) = Inr s"
  shows "fetchWithRetry_from up url opts maxAttempts maxAttempts lastErr tr =
           (Inl ((Error (decimal st @ '': '' @ s))
                   \<lparr>err_status := Some st, err_data := Some (json_catch b)\<rparr>),
            tr @ [Fetch url opts])"
  using assms status_msg_text [OF assms(4), of st]
    fwr_fail [of maxAttempts maxAttempts up tr st b "decimal st @ '': '' @ s" url opts lastErr]
  by simp

lemma ok_step:
  assumes "attempt \<le> maxAttempts" and "fetches tr = n" and "up n = Resolves st b" and "res_ok st"
  shows "fetchWithRetry_from up url opts maxAttempts attempt lastErr tr =
           (Inr (st, json_catch b), tr @ [Fetch url opts])"
  using assms fwr_ok [of attempt maxAttempts up tr st b url opts lastErr] by simp

lemma four_429_exhaust_primary:
  assumes "\<forall>i<4. \<exists>b s. up i = Resolves 429 b \<and> to_string_opt (msg_of (json_catch b)) = Inr s"
  shows "\<exists>e. fetchWithRetry_from up url opts 4 1 None [] =
           (Inl e, [Fetch url opts, Sleep 1000, Fetch url opts, Sleep 2000,
                    Fetch url opts, Sleep 4000, Fetch url opts])
         \<and> err_status e = Some 429"
proof -
  have "\<exists>b s. up 0 = Resolves 429 b \<and> to_string_opt (msg_of (json_catch b)) = Inr s"
    "\<exists>b s. up 1 = Resolves 429 b \<and> to_string_opt (msg_of (json_catch b)) = Inr s"
    "\<exists>b s. up 2 = Resolves 429 b \<and> to_string_opt (msg_of (json_catch b)) = Inr s"
    "\<exists>b s. up 3 = Resolves 429 b \<and> to_string_opt (msg_of (json_catch b)) = Inr s"
    using assms by simp_all
  then obtain b0 s0 b1 s1 b2 s2 b3 s3 where
    r0: "up 0 = Resolves 429 b0" "to_string_opt (msg_of (json_catch b0)) = Inr s0" and
    r1: "up 1 = Resolves 429 b1" "to_string_opt (msg_of (json_catch b1)) = Inr s1" and
    r2: "up 2 = Resolves 429 b2" "to_string_opt (msg_of (json_catch b2)) = Inr s2" and
    r3: "up 3 = Resolves 429 b3" "to_string_opt (msg_of (json_catch b3)) = Inr s3"
    by blast
  let ?P = "Fetch url opts"
  let ?e1 = "Some ((Error (decimal 429 @ '': '' @ s0))\<lparr>err_status := Some 429\<rparr>)"
  let ?e2 = "Some ((Error (decimal 429 @ '': '' @ s1))\<lparr>err_status := Some 429\<rparr>)"
  let ?e3 = "Some ((Error (decimal 429 @ '': '' @ s2))\<lparr>err_status := Some 429\<rparr>)"
  have "fetchWithRetry_from up url opts 4 1 None [] =
        fetchWithRetry_from up url opts 4 2 ?e1 [?P, Sleep 1000]"
    by (rule retry_step [where n = 0 and b = b0]) (use r0 in simp_all)
  also have "\<dots> = fetchWithRetry_from up url opts 4 3 ?e2 [?P, Sleep 1000, ?P, Sleep 2000]"
    by (rule retry_step [where n = 1 and b = b1]) (use r1 in simp_all)
  also have "\<dots> = fetchWithRetry_from up url opts 4 4 ?e3
                     [?P, Sleep 1000, ?P, Sleep 2000, ?P, Sleep 4000]"
    by (rule retry_step [where n = 2 and b = b2]) (use r2 in simp_all)
  also have "\<dots> =
      (Inl ((Error (decimal 429 @ '': '' @ s3))\<lparr>err_status := Some 429, err_data := Some (json_catch b3)\<rparr>),
       [?P, Sleep 1000, ?P, Sleep 2000, ?P, Sleep 4000] @ [?P])"
    by (rule last_step [where n = 3]) (use r3 in \<open>simp_all add: res_ok_def\<close>)
  finally show ?thesis by simp
qed

text \<open>
  With four answers of 429 whose messages have a text, the primary call uses its four
  attempts with sleeps of 1, 2 and 4 seconds, and the handler then runs the fallback call:
  \<^verbatim>\<open>fetchWithRetry\<close> from attempt 1 again, with the same options and a budget of its own.
\<close>

lemma four_429_then_fallback:
  assumes acc: "req_method req = ''POST''" "get_prop (req_body req) ''prompt'' = Some (JStr p)"
      "p \<noteq> []" "env = Some key" "key \<noteq> []"
    and busy: "\<forall>i<4. \<exists>b s. up i = Resolves 429 b \<and> to_string_opt (msg_of (json_catch b)) = Inr s"
  shows "handler_try up env req =
     (case fetchWithRetry up (gemini_url MODEL_FALLBACK key) (gemini_options (JStr p)) 4
             [Fetch (gemini_url MODEL_PRIMARY key) (gemini_options (JStr p)), Sleep 1000,
              Fetch (gemini_url MODEL_PRIMARY key) (gemini_options (JStr p)), Sleep 2000,
              Fetch (gemini_url MODEL_PRIMARY key) (gemini_options (JStr p)), Sleep 4000,
              Fetch (gemini_url MODEL_PRIMARY key) (gemini_options (JStr p))] of
        (Inr (st, data), tr2) \<Rightarrow> (Inr (respond 200 data), tr2)
      | (Inl e2, tr2) \<Rightarrow> (Inl e2, tr2))"
proof -
  from four_429_exhaust_primary [OF busy, of "gemini_url MODEL_PRIMARY key" "gemini_options (JStr p)"]
  obtain e where "fetchWithRetry_from up (gemini_url MODEL_PRIMARY key) (gemini_options (JStr p)) 4 1 None [] =
       (Inl e, [Fetch (gemini_url MODEL_PRIMARY key) (gemini_options (JStr p)), Sleep 1000,
              Fetch (gemini_url MODEL_PRIMARY key) (gemini_options (JStr p)), Sleep 2000,
              Fetch (gemini_url MODEL_PRIMARY key) (gemini_options (JStr p)), Sleep 4000,
              Fetch (gemini_url MODEL_PRIMARY key) (gemini_options (JStr p))])"
    "err_status e = Some 429"
    by blast
  with handler_try_accepted [OF acc, of up] show ?thesis
    by (simp add: fetchWithRetry_def)
qed

lemma four_429_then_200:
  assumes acc: "req_method req = ''POST''" "get_prop (req_body req) ''prompt'' = Some (JStr p)"
      "p \<noteq> []" "env = Some key" "key \<noteq> []"
    and busy: "\<forall>i<4. \<exists>b s. up i = Resolves 429 b \<and> to_string_opt (msg_of (json_catch b)) = Inr s"
    and answer: "up 4 = Resolves 200 (Inr d)"
  shows "handler up env req =
     (respond 200 d,
      [Fetch (gemini_url MODEL_PRIMARY key) (gemini_options (JStr p)), Sleep 1000,
       Fetch (gemini_url MODEL_PRIMARY key) (gemini_options (JStr p)), Sleep 2000,
       Fetch (gemini_url MODEL_PRIMARY key) (gemini_options (JStr p)), Sleep 4000,
       Fetch (gemini_url MODEL_PRIMARY key) (gemini_options (JStr p)),
       Fetch (gemini_url MODEL_FALLBACK key) (gemini_options (JStr p))])"
proof -
  let ?P = "Fetch (gemini_url MODEL_PRIMARY key) (gemini_options (JStr p))"
  let ?tr = "[?P, Sleep 1000, ?P, Sleep 2000, ?P, Sleep 4000, ?P]"
  have "fetchWithRetry_from up (gemini_url MODEL_FALLBACK key) (gemini_options (JStr p)) 4 1 None ?tr =
          (Inr (200, d), ?tr @ [Fetch (gemini_url MODEL_FALLBACK key) (gemini_options (JStr p))])"
    using ok_step [of 1 4 ?tr 4 up 200 "Inr d"] answer
    by (simp add: res_ok_def json_catch_def)
  with four_429_then_fallback [OF acc busy] show ?thesis
    by (simp add: handler_def fetchWithRetry_def)
qed

text \<open>
  C2, at an input where the code falls short of it. The first attempt gets a 429 whose body
  is \<^verbatim>\<open>{"error": {"toString": 1}}\<close>. The loop sleeps 1000 ms and then, building the
  message of \<^verbatim>\<open>lastErr\<close>, throws the \<^verbatim>\<open>TypeError\<close> of the conversion: there is no second
  attempt. With the status 400 and the same body the call fails at once, but with that
  \<^verbatim>\<open>TypeError\<close>, which has no status and no payload.
\<close>

theorem retry_stops_on_tostring_body:
  "fetchWithRetry tostring_always primary_url_k options_hi 4 [] =
     (Inl TypeError_primitive, [Fetch primary_url_k options_hi, Sleep 1000])
   \<and> fetchWithRetry tostring_400_always primary_url_k options_hi 4 [] =
     (Inl TypeError_primitive, [Fetch primary_url_k options_hi])
   \<and> err_status TypeError_primitive = None"
  by code_simp

text \<open>
  C1, at an input where the code falls short of it. The primary target answers 429 with
  the body \<^verbatim>\<open>{"error": {"toString": 1}}\<close> on each of the four attempts it would get, and
  the fallback target would answer 200. The handler makes one request, sleeps 1000 ms and
  answers 500: the \<^verbatim>\<open>TypeError\<close> has no status, so the inner catch does not call the
  fallback target.
\<close>

theorem no_fallback_on_tostring_body:
  "handler tostring_then_answer (Some ''k'') post_hi =
     (respond 500
        (JObj [(''error'',
                JObj [(''message'', JStr ''Cannot convert object to primitive value'')])]),
      [Fetch primary_url_k options_hi, Sleep 1000])"
  by code_simp

section \<open>The variant without retry against the general form\<close>

text \<open>With the constants of the source the general form is the handler of the source.\<close>

lemma callGemini_general_4: "callGemini_general 4 up apiKey model prompt tr = callGemini up apiKey model prompt tr"
  by (simp add: callGemini_general_def callGemini_def)

lemma general_try_canonical:
  "general_try 4 MODEL_PRIMARY (Some MODEL_FALLBACK) up env req = handler_try up env req"
  by (auto simp add: general_try_def handler_try_def callGemini_general_4 Let_def
      split: option.splits prod.splits sum.splits)

lemma handler_general_canonical:
  "handler_general 4 MODEL_PRIMARY (Some MODEL_FALLBACK) up env req = handler up env req"
  by (simp add: handler_general_def handler_def general_try_canonical)

lemma simple_try_cases [case_names not_post bad_prompt no_key accepted]:
  obtains
    "simple_try up env req =
       (Inr (respond 405 (JObj [(''error'', JStr ''Method not allowed'')])), [])"
    "general_try n primary fallback up env req =
       (Inr (respond 405 (JObj [(''error'', JStr ''Method not allowed'')])), [])"
  | "simple_try up env req =
       (Inr (respond 400 (JObj [(''error'', JStr ''Missing or invalid prompt'')])), [])"
    "general_try n primary fallback up env req =
       (Inr (respond 400 (JObj [(''error'', JStr ''Missing or invalid prompt'')])), [])"
  | "simple_try up env req =
       (Inr (respond 500 (JObj [(''error'', JStr ''Missing GEMINI_API_KEY env var'')])), [])"
    "general_try n primary fallback up env req =
       (Inr (respond 500 (JObj [(''error'', JStr ''Missing GEMINI_API_KEY env var'')])), [])"
  | p key where "req_method req = ''POST''" "get_prop (req_body req) ''prompt'' = Some (JStr p)"
      "p \<noteq> []" "env = Some key" "key \<noteq> []"
proof (cases "req_method req = ''POST''")
  case False
  then show ?thesis using that(1) by (simp add: simple_try_def general_try_def)
next
  case post: True
  show ?thesis
  proof (cases "\<exists>p. get_prop (req_body req) ''prompt'' = Some (JStr p) \<and> p \<noteq> []")
    case False
    with post have "simple_try up env req =
       (Inr (respond 400 (JObj [(''error'', JStr ''Missing or invalid prompt'')])), [])"
      "general_try n primary fallback up env req =
       (Inr (respond 400 (JObj [(''error'', JStr ''Missing or invalid prompt'')])), [])"
      by (auto simp add: simple_try_def general_try_def get_prop_js_or_empty typeof_string_iff
          split: option.splits)
    then show ?thesis using that(2) by blast
  next
    case True
    then obtain p where p: "get_prop (req_body req) ''prompt'' = Some (JStr p)" "p \<noteq> []"
      by blast
    show ?thesis
    proof (cases "\<exists>key. env = Some key \<and> key \<noteq> []")
      case False
      with post p have "simple_try up env req =
         (Inr (respond 500 (JObj [(''error'', JStr ''Missing GEMINI_API_KEY env var'')])), [])"
        "general_try n primary fallback up env req =
         (Inr (respond 500 (JObj [(''error'', JStr ''Missing GEMINI_API_KEY env var'')])), [])"
        by (auto simp add: simple_try_def general_try_def get_prop_js_or_empty split: option.splits)
      then show ?thesis using that(3) by blast
    next
      case True
      with post p show ?thesis using that(4) by blast
    qed
  qed
qed

lemma simple_try_accepted:
  assumes "req_method req = ''POST''" "get_prop (req_body req) ''prompt'' = Some (JStr p)"
    "p \<noteq> []" "env = Some key" "key \<noteq> []"
  shows "simple_try up env req =
     (case up 0 of
        Rejects e \<Rightarrow> (Inl e, [Fetch (gemini_url MODEL_FALLBACK key) (gemini_options (JStr p))])
      | Resolves st body \<Rightarrow>
          (case body of
             Inl e \<Rightarrow> (Inl e, [Fetch (gemini_url MODEL_FALLBACK key) (gemini_options (JStr p))])
           | Inr d \<Rightarrow> (Inr (respond st d),
                       [Fetch (gemini_url MODEL_FALLBACK key) (gemini_options (JStr p))])))"
  using assms
  by (auto simp add: simple_try_def get_prop_js_or_empty fetch_def gemini_url_def MODEL_FALLBACK_def
      gemini_options_def gemini_body_def split: fetch_result.splits sum.splits)

lemma general_try_single:
  assumes "req_method req = ''POST''" "get_prop (req_body req) ''prompt'' = Some (JStr p)"
    "p \<noteq> []" "env = Some key" "key \<noteq> []"
  shows "general_try 1 model None up env req =
     (case fetchWithRetry_from up (gemini_url model key) (gemini_options (JStr p)) 1 1 None [] of
        (Inr (st, d), tr1) \<Rightarrow> (Inr (respond 200 d), tr1)
      | (Inl e, tr1) \<Rightarrow> (Inl e, tr1))"
  using assms
  by (auto simp add: general_try_def get_prop_js_or_empty callGemini_general_def fetchWithRetry_def
      split: prod.splits sum.splits)

lemma fwr_single_trace:
  "snd (fetchWithRetry_from up url opts 1 1 None []) = [Fetch url opts]"
  by (cases rule: fwr_cases [where attempt = 1 and maxAttempts = 1 and up = up and tr = "[]"])
     (simp_all add: fwr_rejects fwr_ok fwr_fail fwr_fail_throws)

text \<open>
  C3, as amended. The variant without retry has the same effects as the general form with
  one attempt, the target \<^verbatim>\<open>gemini-2.0-flash\<close> and no fallback: no request when the request
  is turned down, otherwise the same single request. The two give the same response when
  the request is turned down before the call (405, 400, 500 for the missing key) and when
  the endpoint answers 200 with a JSON body.
\<close>

theorem simple_variant_agreement:
  "snd (handler_simple up env req) = snd (handler_general 1 MODEL_FALLBACK None up env req)
   \<and> (snd (handler_simple up env req) = [] \<or> (\<exists>d. up 0 = Resolves 200 (Inr d))
        \<longrightarrow> handler_simple up env req = handler_general 1 MODEL_FALLBACK None up env req)"
proof (cases rule: simple_try_cases [of up env req 1 MODEL_FALLBACK None])
  case not_post
  then show ?thesis by (simp add: handler_simple_def handler_general_def)
next
  case bad_prompt
  then show ?thesis by (simp add: handler_simple_def handler_general_def)
next
  case no_key
  then show ?thesis by (simp add: handler_simple_def handler_general_def)
next
  case (accepted p key)
  let ?url = "gemini_url MODEL_FALLBACK key"
  let ?opts = "gemini_options (JStr p)"
  note s = simple_try_accepted [OF accepted, of up]
  note g = general_try_single [OF accepted, of MODEL_FALLBACK up]
  have tr_s: "snd (handler_simple up env req) = [Fetch ?url ?opts]"
    using s by (auto simp add: handler_simple_def split: fetch_result.splits sum.splits)
  have tr_g: "snd (handler_general 1 MODEL_FALLBACK None up env req) = [Fetch ?url ?opts]"
    using g fwr_single_trace [of up ?url ?opts]
    by (auto simp add: handler_general_def split: prod.splits sum.splits)
  have "handler_simple up env req = handler_general 1 MODEL_FALLBACK None up env req"
    if "up 0 = Resolves 200 (Inr d)" for d
  proof -
    have "fetchWithRetry_from up ?url ?opts 1 1 None [] = (Inr (200, d), [Fetch ?url ?opts])"
      using fwr_ok [of 1 1 up "[]" 200 "Inr d" ?url ?opts None] that
      by (simp add: res_ok_def json_catch_def)
    with s g that show ?thesis
      by (simp add: handler_simple_def handler_general_def)
  qed
  with tr_s tr_g show ?thesis by auto
qed

theorem simple_variant_agreement_witness:
  "snd (handler_simple answer_always (Some ''k'') post_hi) =
     snd (handler_general 1 MODEL_FALLBACK None answer_always (Some ''k'') post_hi)
   \<and> handler_simple answer_always (Some ''k'') post_hi =
       handler_general 1 MODEL_FALLBACK None answer_always (Some ''k'') post_hi
   \<and> handler_simple answer_always (Some ''k'') get_hi =
       handler_general 1 MODEL_FALLBACK None answer_always (Some ''k'') get_hi"
proof -
  have "\<exists>d. answer_always 0 = Resolves 200 (Inr d)"
    by (simp add: answer_always_def)
  moreover have "snd (handler_simple answer_always (Some ''k'') get_hi) = []"
    by code_simp
  ultimately show ?thesis
    using simple_variant_agreement [of answer_always "Some ''k''" post_hi]
      simple_variant_agreement [of answer_always "Some ''k''" get_hi]
    by blast
qed

text \<open>
  The claim as written fails on an upstream 400: the variant passes the status and the
  payload on, the general form answers 500 with a message.
\<close>

theorem simple_variant_counterexample:
  "fst (handler_simple bad_request_always (Some ''k'') post_hi) = respond 400 bad_body
   \<and> fst (handler_general 1 MODEL_FALLBACK None bad_request_always (Some ''k'') post_hi) =
       respond 500 (JObj [(''error'', JObj [(''message'', JStr ''400: bad'')])])
   \<and> handler_simple bad_request_always (Some ''k'') post_hi \<noteq>
       handler_general 1 MODEL_FALLBACK None bad_request_always (Some ''k'') post_hi"
  by code_simp

end
